theory Spec2Isabelle
  imports Complex_Main "HOL-Library.Multiset"
begin

section \<open>Data model of \<open>python/utils/elo_model.py\<close>\<close>

text \<open>
  Python floats are modelled as \<^typ>\<open>real\<close>: every statement below is about the exact
  arithmetic of the formulas, not about IEEE rounding or overflow. NaN is modelled in one
  place, the two goal counts of a match record, where a missing value of the games table
  shows up (type \<open>cell\<close> below); ratings, rest days, distances and injury counts are reals.

  \<open>self.params\<close> is a dict read only through \<open>params.get(key, default)\<close>; it is a
  record with one optional field per recognised key, \<open>None\<close> meaning that the key is absent.
\<close>

record params =
  k_factor :: "real option"
  home_advantage :: "real option"
  initial_rating :: "real option"
  mov_multiplier :: "real option"
  mov_method :: "string option"
  season_carryover :: "real option"
  ot_win_multiplier :: "real option"
  rest_advantage_per_day :: "real option"
  b2b_penalty :: "real option"

text \<open>\<open>d.get(key, default)\<close> on an optional field.\<close>

definition get_or :: "'a option \<Rightarrow> 'a \<Rightarrow> 'a" where
  "get_or v d = (case v of None \<Rightarrow> d | Some x \<Rightarrow> x)"

text \<open>
  The values an outcome column or a win flag can hold: a string code, a number or a
  boolean. \<open>py_eq_one\<close> is Python's \<open>v == 1\<close> (where \<open>True == 1\<close>), \<open>truthy\<close> is
  the test of \<open>if v\<close>.
\<close>

datatype pyval = Str string | Num real | Bool bool

fun py_eq_one :: "pyval \<Rightarrow> bool" where
  "py_eq_one (Str s) = False"
| "py_eq_one (Num r) = (r = 1)"
| "py_eq_one (Bool b) = b"

fun truthy :: "pyval \<Rightarrow> bool" where
  "truthy (Str s) = (s \<noteq> [])"
| "truthy (Num r) = (r \<noteq> 0)"
| "truthy (Bool b) = b"

text \<open>
  A goal count as the games table holds it: a number, or NaN where the value is missing
  (pandas stores a missing number as NaN). \<open>cell_gt\<close> is Python's \<open>a > b\<close> and
  \<open>cell_sub\<close> is \<open>a - b\<close> on such values: a comparison with NaN is false and a
  difference with NaN is NaN.
\<close>

datatype cell = Val real | NaN

fun cell_gt :: "cell \<Rightarrow> cell \<Rightarrow> bool" where
  "cell_gt (Val a) (Val b) = (a > b)"
| "cell_gt (Val a) NaN = False"
| "cell_gt NaN b = False"

fun cell_sub :: "cell \<Rightarrow> cell \<Rightarrow> cell" where
  "cell_sub (Val a) (Val b) = Val (a - b)"
| "cell_sub (Val a) NaN = NaN"
| "cell_sub NaN b = NaN"

text \<open>
  A match record (a row of the games table, or a dict). \<open>None\<close> is an absent key:
  \<open>game['k']\<close> raises \<open>KeyError\<close> there and \<open>game.get('k', d)\<close> returns \<open>d\<close>.
  A key that is present with a missing goal value is \<open>Some NaN\<close>.
\<close>

record game =
  home_team :: "string option"
  away_team :: "string option"
  home_goals :: "cell option"
  away_goals :: "cell option"
  home_rest :: "real option"
  away_rest :: "real option"
  away_travel_dist :: "real option"
  travel_distance :: "real option"
  home_injuries :: "real option"
  away_injuries :: "real option"
  injuries :: "real option"
  home_outcome :: "pyval option"
  home_win :: "pyval option"

text \<open>
  \<open>KeyError\<close> and \<open>ValueError\<close> are the exceptions of the source. \<open>NanRatings h a\<close> is
  not an exception: it names the one outcome of \<open>update_ratings\<close> that the real-valued
  Rating Store cannot hold, where the source goes on after writing NaN as the rating of
  both \<open>h\<close> and \<open>a\<close> (and appending the history entry).
\<close>

datatype error = KeyError string | ValueError | NanRatings string string

text \<open>\<open>game['k']\<close>: the value, or \<open>KeyError('k')\<close>.\<close>

definition getitem :: "'a option \<Rightarrow> string \<Rightarrow> error + 'a" where
  "getitem v k = (case v of None \<Rightarrow> Inl (KeyError k) | Some x \<Rightarrow> Inr x)"

text \<open>
  \<open>self.ratings\<close> is a dict, and Python dicts keep insertion order (which \<open>get_rankings\<close>
  exposes through the stable sort), so the Rating Store is an association list:
  \<open>ratings_get\<close> is \<open>self.ratings.get(team, default)\<close> and \<open>ratings_set\<close> is
  \<open>self.ratings[team] = v\<close>, which overwrites in place or appends a new key at the end.
\<close>

type_synonym ratings = "(string \<times> real) list"

definition ratings_get :: "ratings \<Rightarrow> string \<Rightarrow> real \<Rightarrow> real" where
  "ratings_get rs t d = (case map_of rs t of None \<Rightarrow> d | Some r \<Rightarrow> r)"

fun ratings_set :: "string \<Rightarrow> real \<Rightarrow> ratings \<Rightarrow> ratings" where
  "ratings_set t v [] = [(t, v)]"
| "ratings_set t v ((t', r) # rs) =
     (if t' = t then (t, v) # rs else (t', r) # ratings_set t v rs)"

record history_record =
  hist_home_team :: string
  hist_away_team :: string
  hist_home_rating :: real
  hist_away_rating :: real

record elo_model =
  ratings :: ratings
  rating_history :: "history_record list"

text \<open>The model as \<open>__init__\<close> leaves it.\<close>

definition init_model :: elo_model where
  "init_model = \<lparr>ratings = [], rating_history = []\<rparr>"

section \<open>The pure functions\<close>

text \<open>\<open>initialize_ratings(teams, divisions)\<close>: \<open>divisions\<close> is read by position.\<close>

definition division_ratings :: "real \<Rightarrow> string \<Rightarrow> real" where
  "division_ratings initial d =
     (if d = ''D1'' then initial + 100
      else if d = ''D2'' then initial
      else if d = ''D3'' then initial - 100
      else initial)"

fun initialize_loop ::
  "real \<Rightarrow> string list option \<Rightarrow> nat \<Rightarrow> string list \<Rightarrow> ratings \<Rightarrow> ratings" where
  "initialize_loop initial divisions i [] rs = rs"
| "initialize_loop initial divisions i (team # teams) rs =
     initialize_loop initial divisions (Suc i) teams
       (case divisions of
          None \<Rightarrow> ratings_set team initial rs
        | Some ds \<Rightarrow>
            if i < length ds then ratings_set team (division_ratings initial (ds ! i)) rs
            else ratings_set team initial rs)"

definition initialize_ratings ::
  "params \<Rightarrow> elo_model \<Rightarrow> string list \<Rightarrow> string list option \<Rightarrow> elo_model" where
  "initialize_ratings p m teams divisions =
     m\<lparr>ratings := initialize_loop (get_or (initial_rating p) 1500) divisions 0 teams (ratings m)\<rparr>"

text \<open>\<open>1 / (1 + 10 ** ((opponent_elo - team_elo) / 400))\<close>\<close>

definition calculate_expected_score :: "real \<Rightarrow> real \<Rightarrow> real" where
  "calculate_expected_score team_elo opponent_elo =
     1 / (1 + 10 powr ((opponent_elo - team_elo) / 400))"

definition calculate_mov_multiplier :: "params \<Rightarrow> real \<Rightarrow> real" where
  "calculate_mov_multiplier p goal_diff =
     (let mov = get_or (mov_multiplier p) 0 in
      if mov = 0 then 1
      else if get_or (mov_method p) ''logarithmic'' = ''linear''
        then 1 + \<bar>goal_diff\<bar> * mov
      else 1 + ln (\<bar>goal_diff\<bar> + 1) * mov)"

text \<open>
  The same function at a goal differential read from the table. At NaN, line 63 still
  returns 1.0 when the weight is 0, before the differential is looked at; otherwise lines
  66 to 68 compute with NaN and return NaN.
\<close>

definition calculate_mov_multiplier_cell :: "params \<Rightarrow> cell \<Rightarrow> cell" where
  "calculate_mov_multiplier_cell p goal_diff =
     (case goal_diff of
        Val d \<Rightarrow> Val (calculate_mov_multiplier p d)
      | NaN \<Rightarrow> if get_or (mov_multiplier p) 0 = 0 then Val 1 else NaN)"

text \<open>
  \<open>outcome in ['RW', 'W', 1]\<close> compares with \<open>==\<close>, so the number 1 and \<open>True\<close> are
  win codes too.
\<close>

definition get_actual_score :: "params \<Rightarrow> pyval \<Rightarrow> real" where
  "get_actual_score p outcome =
     (if outcome = Str ''RW'' \<or> outcome = Str ''W'' \<or> py_eq_one outcome then 1
      else if outcome = Str ''OTW'' then get_or (ot_win_multiplier p) 0.75
      else if outcome = Str ''OTL'' then 1 - get_or (ot_win_multiplier p) 0.75
      else 0)"

definition adjust_for_context :: "params \<Rightarrow> real \<Rightarrow> bool \<Rightarrow> real \<Rightarrow> real \<Rightarrow> real \<Rightarrow> real" where
  "adjust_for_context p team_elo is_home rest_time travel_dist injuries_n =
     (let adjusted = team_elo;
          adjusted = (if is_home then adjusted + get_or (home_advantage p) 0 else adjusted);
          adjusted = (if rest_time \<le> 1 then adjusted - get_or (b2b_penalty p) 0 else adjusted);
          adjusted = (if \<not> is_home \<and> travel_dist > 0
                      then adjusted - (travel_dist / 1000) * 15 else adjusted)
      in adjusted - injuries_n * 25)"

section \<open>The Rating Update Engine\<close>

text \<open>
  The locals of \<open>update_ratings\<close>, in the order the source computes them.
  \<open>update_home_expected\<close> is lines 107 to 126 (steps 1 to 4 of the recurrence), given
  the two team identifiers read at lines 103 and 104.
\<close>

definition update_home_expected :: "params \<Rightarrow> ratings \<Rightarrow> game \<Rightarrow> string \<Rightarrow> string \<Rightarrow> real" where
  "update_home_expected p rs g ht awt =
     (let home_elo = ratings_get rs ht 1500;
          away_elo = ratings_get rs awt 1500;
          home_rest_v = get_or (home_rest g) 2;
          away_rest_v = get_or (away_rest g) 2;
          away_travel = get_or (away_travel_dist g) (get_or (travel_distance g) 0);
          home_injuries_v = get_or (home_injuries g) (get_or (injuries g) 0);
          away_injuries_v = get_or (away_injuries g) (get_or (injuries g) 0);
          home_adj = adjust_for_context p home_elo True home_rest_v 0 home_injuries_v;
          away_adj = adjust_for_context p away_elo False away_rest_v away_travel away_injuries_v;
          rest_diff = home_rest_v - away_rest_v;
          home_adj = home_adj + rest_diff * get_or (rest_advantage_per_day p) 0
      in calculate_expected_score home_adj away_adj)"

text \<open>Lines 129 to 134: the outcome code, else the win flag, else the goal comparison.\<close>

definition update_home_actual :: "params \<Rightarrow> game \<Rightarrow> error + real" where
  "update_home_actual p g =
     (case home_outcome g of
        Some oc \<Rightarrow> Inr (get_actual_score p oc)
      | None \<Rightarrow>
         (case home_win g of
            Some w \<Rightarrow> Inr (if truthy w then 1 else 0)
          | None \<Rightarrow>
             (case getitem (home_goals g) ''home_goals'' of
                Inl e \<Rightarrow> Inl e
              | Inr hg \<Rightarrow>
                 (case getitem (away_goals g) ''away_goals'' of
                    Inl e \<Rightarrow> Inl e
                  | Inr ag \<Rightarrow> Inr (if cell_gt hg ag then 1 else 0)))))"

text \<open>Line 137: \<open>game['home_goals'] - game['away_goals']\<close>.\<close>

definition update_goal_diff :: "game \<Rightarrow> error + cell" where
  "update_goal_diff g =
     (case getitem (home_goals g) ''home_goals'' of
        Inl e \<Rightarrow> Inl e
      | Inr hg \<Rightarrow>
         (case getitem (away_goals g) ''away_goals'' of
            Inl e \<Rightarrow> Inl e
          | Inr ag \<Rightarrow> Inr (cell_sub hg ag)))"

text \<open>
  \<open>update_ratings(game)\<close>. Every subscript \<open>game['k']\<close> (lines 103, 104, 134, 137) comes
  before the first assignment to \<open>self.ratings\<close> (line 142), so a \<open>KeyError\<close> leaves the
  model as it was: \<open>Inl e\<close> is the exception \<open>e\<close> with \<open>self\<close> untouched, \<open>Inr m'\<close> is
  the model after the update. The history entry reads \<open>self.ratings[team]\<close> for the two
  keys just written, so the default given to \<open>ratings_get\<close> there is never used.

  A NaN goal value raises nothing. With the MOV weight at 0 (the default) the multiplier
  is 1.0 and the update is written as for any other match; with a non-zero weight the
  multiplier, \<open>k\<close> and both new ratings are NaN, which is the outcome \<open>NanRatings\<close>.
\<close>

definition update_ratings :: "params \<Rightarrow> elo_model \<Rightarrow> game \<Rightarrow> error + elo_model" where
  "update_ratings p m g =
     (case getitem (home_team g) ''home_team'' of
        Inl e \<Rightarrow> Inl e
      | Inr ht \<Rightarrow>
     (case getitem (away_team g) ''away_team'' of
        Inl e \<Rightarrow> Inl e
      | Inr awt \<Rightarrow>
     (let home_elo = ratings_get (ratings m) ht 1500;
          away_elo = ratings_get (ratings m) awt 1500;
          home_expected = update_home_expected p (ratings m) g ht awt
      in
     (case update_home_actual p g of
        Inl e \<Rightarrow> Inl e
      | Inr home_actual \<Rightarrow>
     (case update_goal_diff g of
        Inl e \<Rightarrow> Inl e
      | Inr goal_diff \<Rightarrow>
     (case calculate_mov_multiplier_cell p goal_diff of
        NaN \<Rightarrow> Inl (NanRatings ht awt)
      | Val mov_mult \<Rightarrow>
     (let k = get_or (k_factor p) 32 * mov_mult;
          rs1 = ratings_set ht (home_elo + k * (home_actual - home_expected)) (ratings m);
          rs2 = ratings_set awt (away_elo + k * ((1 - home_actual) - (1 - home_expected))) rs1
      in Inr \<lparr>ratings = rs2,
               rating_history = rating_history m @
                 [\<lparr>hist_home_team = ht, hist_away_team = awt,
                   hist_home_rating = ratings_get rs2 ht 0,
                   hist_away_rating = ratings_get rs2 awt 0\<rparr>]\<rparr>)))))))"

text \<open>
  The loop of \<open>fit\<close> (lines 325 and 326): the matches are folded in order. An exception
  stops the loop and reaches the caller; \<open>Inl (e, m)\<close> is the exception \<open>e\<close> together
  with the model \<open>m\<close> that the matches before it have left behind. The model does not
  follow a store that holds NaN: at \<open>NanRatings\<close> it stops with the model as it was before
  that match, where the source writes the two NaN ratings and goes on to the next match.
\<close>

fun fit_loop :: "params \<Rightarrow> elo_model \<Rightarrow> game list \<Rightarrow> (error \<times> elo_model) + elo_model" where
  "fit_loop p m [] = Inr m"
| "fit_loop p m (g # gs) =
     (case update_ratings p m g of
        Inl e \<Rightarrow> Inl (e, m)
      | Inr m' \<Rightarrow> fit_loop p m' gs)"

text \<open>The sum of all ratings held by the Rating Store.\<close>

definition rating_sum :: "elo_model \<Rightarrow> real" where
  "rating_sum m = sum_list (map snd (ratings m))"

section \<open>The Predictor\<close>

text \<open>
  The class body defines \<open>predict_goals\<close>, \<open>predict_winner\<close>, \<open>fit\<close>, \<open>evaluate\<close> and
  \<open>get_rankings\<close> twice; Python binds each name to its last definition, so the methods
  that run are those of lines 259 to 349, which are the ones modelled here.

  \<open>predict_home_win_prob\<close> is the local \<open>home_win_prob\<close>: lines 262 to 279 of
  \<open>predict_goals\<close> and lines 292 to 307 of \<open>predict_winner\<close> are the same computation.
\<close>

definition predict_home_win_prob :: "params \<Rightarrow> ratings \<Rightarrow> game \<Rightarrow> string \<Rightarrow> string \<Rightarrow> real" where
  "predict_home_win_prob p rs g ht awt =
     (let home_elo = ratings_get rs ht 1500;
          away_elo = ratings_get rs awt 1500;
          home_elo_adj = adjust_for_context p home_elo True
                           (get_or (home_rest g) 2) 0 (get_or (home_injuries g) 0);
          away_elo_adj = adjust_for_context p away_elo False
                           (get_or (away_rest g) 2) (get_or (away_travel_dist g) 0)
                           (get_or (away_injuries g) 0);
          rest_diff = get_or (home_rest g) 2 - get_or (away_rest g) 2;
          home_elo_adj = home_elo_adj + rest_diff * get_or (rest_advantage_per_day p) 0
      in calculate_expected_score home_elo_adj away_elo_adj)"

definition predict_goals :: "params \<Rightarrow> elo_model \<Rightarrow> game \<Rightarrow> error + (real \<times> real)" where
  "predict_goals p m g =
     (case getitem (home_team g) ''home_team'' of
        Inl e \<Rightarrow> Inl e
      | Inr ht \<Rightarrow>
     (case getitem (away_team g) ''away_team'' of
        Inl e \<Rightarrow> Inl e
      | Inr awt \<Rightarrow>
     (let home_win_prob = predict_home_win_prob p (ratings m) g ht awt;
          expected_diff = (home_win_prob - 0.5) * 12
      in Inr (3 + expected_diff / 2, 3 - expected_diff / 2))))"

definition predict_winner :: "params \<Rightarrow> elo_model \<Rightarrow> game \<Rightarrow> error + (string \<times> real)" where
  "predict_winner p m g =
     (case getitem (home_team g) ''home_team'' of
        Inl e \<Rightarrow> Inl e
      | Inr ht \<Rightarrow>
     (case getitem (away_team g) ''away_team'' of
        Inl e \<Rightarrow> Inl e
      | Inr awt \<Rightarrow>
     (let home_win_prob = predict_home_win_prob p (ratings m) g ht awt
      in if home_win_prob > 0.5 then Inr (ht, home_win_prob)
         else Inr (awt, 1 - home_win_prob))))"

section \<open>The Evaluator\<close>

text \<open>
  The three metrics come from scikit-learn, which is not part of the repository; they are
  written out from their documented formulas, for a version that accepts
  \<open>squared=False\<close>. On constant observations \<open>r2_score\<close> returns 1 for a perfect
  prediction and 0 otherwise; all three raise \<open>ValueError\<close> on empty input and on input
  that contains NaN. \<open>finite_cells\<close> is that input check on the observed values.
\<close>

fun finite_cells :: "cell list \<Rightarrow> real list option" where
  "finite_cells [] = Some []"
| "finite_cells (Val r # cs) = map_option ((#) r) (finite_cells cs)"
| "finite_cells (NaN # cs) = None"

definition mean_list :: "real list \<Rightarrow> real" where
  "mean_list xs = sum_list xs / real (length xs)"

definition root_mean_squared_error :: "real list \<Rightarrow> real list \<Rightarrow> real" where
  "root_mean_squared_error ys ps = sqrt (mean_list (map (\<lambda>(y, q). (y - q)\<^sup>2) (zip ys ps)))"

definition mean_absolute_error :: "real list \<Rightarrow> real list \<Rightarrow> real" where
  "mean_absolute_error ys ps = mean_list (map (\<lambda>(y, q). \<bar>y - q\<bar>) (zip ys ps))"

definition r2_score :: "real list \<Rightarrow> real list \<Rightarrow> real" where
  "r2_score ys ps =
     (let ss_res = sum_list (map (\<lambda>(y, q). (y - q)\<^sup>2) (zip ys ps));
          ss_tot = sum_list (map (\<lambda>y. (y - mean_list ys)\<^sup>2) ys)
      in if ss_tot = 0 then (if ss_res = 0 then 1 else 0)
         else 1 - ss_res / ss_tot)"

record metrics =
  rmse :: real
  mae :: real
  r2 :: real

text \<open>
  The loop of \<open>evaluate\<close>: the pair is (\<open>predictions\<close>, \<open>actuals\<close>), in the order of
  the matches. The first match that raises ends the loop.
\<close>

fun evaluate_loop :: "params \<Rightarrow> elo_model \<Rightarrow> game list \<Rightarrow> error + (real list \<times> cell list)" where
  "evaluate_loop p m [] = Inr ([], [])"
| "evaluate_loop p m (g # gs) =
     (case predict_goals p m g of
        Inl e \<Rightarrow> Inl e
      | Inr (home_pred, away_pred) \<Rightarrow>
     (case getitem (home_goals g) ''home_goals'' of
        Inl e \<Rightarrow> Inl e
      | Inr actual \<Rightarrow>
     (case evaluate_loop p m gs of
        Inl e \<Rightarrow> Inl e
      | Inr (predictions, actuals) \<Rightarrow> Inr (home_pred # predictions, actual # actuals))))"

text \<open>\<open>len(set(actuals))\<close> is the number of distinct observed values.\<close>

definition evaluate :: "params \<Rightarrow> elo_model \<Rightarrow> game list \<Rightarrow> error + metrics" where
  "evaluate p m gs =
     (case evaluate_loop p m gs of
        Inl e \<Rightarrow> Inl e
      | Inr (predictions, cells) \<Rightarrow>
         (case finite_cells cells of
            None \<Rightarrow> Inl ValueError
          | Some actuals \<Rightarrow>
              if actuals = [] then Inl ValueError
              else Inr \<lparr>rmse = root_mean_squared_error actuals predictions,
                        mae = mean_absolute_error actuals predictions,
                        r2 = (if length (remdups actuals) > 1
                              then r2_score actuals predictions else 0)\<rparr>))"

section \<open>Rankings\<close>

text \<open>
  \<open>xs[:n]\<close>: the first \<open>n\<close> elements, or all but the last \<open>-n\<close> when \<open>n\<close> is negative.
\<close>

definition slice_to :: "int \<Rightarrow> 'a list \<Rightarrow> 'a list" where
  "slice_to n xs = (if 0 \<le> n then take (nat n) xs else take (nat (int (length xs) + n)) xs)"

text \<open>
  \<open>sorted(items, key=rating, reverse=True)\<close> is stable: it orders by descending rating
  and keeps the store's order among equal ratings, which is what the stable ascending sort
  on the negated rating does. \<open>top_n\<close> is \<open>None\<close> or an integer, and \<open>if top_n\<close> is false
  for both \<open>None\<close> and 0.
\<close>

definition get_rankings :: "elo_model \<Rightarrow> int option \<Rightarrow> (string \<times> real) list" where
  "get_rankings m top_n =
     (let sorted_ratings = sort_key (\<lambda>x. - snd x) (ratings m) in
      case top_n of
        None \<Rightarrow> sorted_ratings
      | Some n \<Rightarrow> if n \<noteq> 0 then slice_to n sorted_ratings else sorted_ratings)"

section \<open>Concrete inputs\<close>

text \<open>
  \<open>empty_params\<close> is the empty dict \<open>{}\<close>, under which every option takes the default
  written in the code. \<open>plain_game h a hg ag\<close> is a match record holding the four
  mandatory fields, with numeric goal counts, and nothing else. \<open>store rs\<close> is a model
  whose Rating Store is \<open>rs\<close> and whose history is empty.
\<close>

definition empty_params :: params where
  "empty_params = \<lparr>k_factor = None, home_advantage = None, initial_rating = None,
     mov_multiplier = None, mov_method = None, season_carryover = None,
     ot_win_multiplier = None, rest_advantage_per_day = None, b2b_penalty = None\<rparr>"

definition plain_game :: "string \<Rightarrow> string \<Rightarrow> real \<Rightarrow> real \<Rightarrow> game" where
  "plain_game h a hg ag = \<lparr>home_team = Some h, away_team = Some a,
     home_goals = Some (Val hg), away_goals = Some (Val ag), home_rest = None,
     away_rest = None, away_travel_dist = None, travel_distance = None,
     home_injuries = None, away_injuries = None, injuries = None,
     home_outcome = None, home_win = None\<rparr>"

definition store :: "ratings \<Rightarrow> elo_model" where
  "store rs = \<lparr>ratings = rs, rating_history = []\<rparr>"

section \<open>Properties of the pure functions\<close>

lemmas eval_defs = empty_params_def plain_game_def store_def init_model_def
  update_ratings_def getitem_def get_or_def ratings_get_def
  update_home_expected_def update_home_actual_def update_goal_diff_def
  calculate_mov_multiplier_def calculate_mov_multiplier_cell_def adjust_for_context_def
  calculate_expected_score_def
  predict_home_win_prob_def predict_goals_def predict_winner_def Let_def

text \<open>
  C6. For all ratings \<open>a\<close> and \<open>b\<close>, the expected score of \<open>a\<close> against \<open>b\<close> and that
  of \<open>b\<close> against \<open>a\<close> add up to exactly 1 (over the reals), and each expected score lies
  strictly between 0 and 1.
\<close>

theorem expected_score_symmetric:
  "calculate_expected_score a b + calculate_expected_score b a = 1
     \<and> 0 < calculate_expected_score a b \<and> calculate_expected_score a b < 1"
proof -
  define x :: real where "x = 10 powr ((b - a) / 400)"
  have pos: "0 < x" by (simp add: x_def)
  have "(a - b) / 400 = - ((b - a) / 400)" by (simp add: field_simps)
  then have inv: "10 powr ((a - b) / 400) = 1 / x"
    unfolding x_def by (simp only: powr_minus_divide)
  have sum1: "1 / (1 + x) + 1 / (1 + 1 / x) = 1"
    using pos by (simp add: field_simps)
  have lt1: "1 / (1 + x) < 1" using pos by simp
  have gt0: "0 < 1 / (1 + x)" using pos by simp
  show ?thesis
    unfolding calculate_expected_score_def inv
    using sum1 lt1 gt0 by (simp add: x_def)
qed

text \<open>
  C5. With \<open>w\<close> the configured MOV weight (0 when the option is absent): if \<open>w = 0\<close> the
  multiplier is exactly 1 for every goal differential \<open>d\<close>; otherwise it is
  \<open>1 + |d| * w\<close> in linear mode and \<open>1 + ln (|d| + 1) * w\<close> in every other mode (the
  logarithmic default included); and for every \<open>w \<ge> 0\<close> the multiplier is at least 1.
\<close>

theorem mov_multiplier_cases:
  "(get_or (mov_multiplier p) 0 = 0 \<longrightarrow> calculate_mov_multiplier p d = 1)
   \<and> (get_or (mov_multiplier p) 0 \<noteq> 0 \<and> mov_method p = Some ''linear'' \<longrightarrow>
        calculate_mov_multiplier p d = 1 + \<bar>d\<bar> * get_or (mov_multiplier p) 0)
   \<and> (get_or (mov_multiplier p) 0 \<noteq> 0 \<and> mov_method p \<noteq> Some ''linear'' \<longrightarrow>
        calculate_mov_multiplier p d = 1 + ln (\<bar>d\<bar> + 1) * get_or (mov_multiplier p) 0)
   \<and> (0 \<le> get_or (mov_multiplier p) 0 \<longrightarrow> 1 \<le> calculate_mov_multiplier p d)"
proof -
  have ln_nonneg: "0 \<le> ln (\<bar>d\<bar> + 1)" by simp
  show ?thesis
    using ln_nonneg
    by (cases "mov_method p") (auto simp: calculate_mov_multiplier_def get_or_def Let_def)
qed

theorem mov_multiplier_cases_witness:
  "get_or (mov_multiplier empty_params) 0 = 0
     \<and> calculate_mov_multiplier empty_params 3 = 1
   \<and> get_or (mov_multiplier
        (empty_params\<lparr>mov_multiplier := Some (1 / 2), mov_method := Some ''linear''\<rparr>)) 0 \<noteq> 0
     \<and> mov_method (empty_params\<lparr>mov_multiplier := Some (1 / 2), mov_method := Some ''linear''\<rparr>)
          = Some ''linear''
     \<and> calculate_mov_multiplier
          (empty_params\<lparr>mov_multiplier := Some (1 / 2), mov_method := Some ''linear''\<rparr>) 3 = 5 / 2
   \<and> get_or (mov_multiplier (empty_params\<lparr>mov_multiplier := Some (1 / 2)\<rparr>)) 0 \<noteq> 0
     \<and> mov_method (empty_params\<lparr>mov_multiplier := Some (1 / 2)\<rparr>) \<noteq> Some ''linear''
     \<and> calculate_mov_multiplier (empty_params\<lparr>mov_multiplier := Some (1 / 2)\<rparr>) 0 = 1
   \<and> 0 \<le> get_or (mov_multiplier (empty_params\<lparr>mov_multiplier := Some (1 / 2)\<rparr>)) 0
     \<and> 1 \<le> calculate_mov_multiplier (empty_params\<lparr>mov_multiplier := Some (1 / 2)\<rparr>) (- 4)"
  using mov_multiplier_cases [of empty_params 3]
    mov_multiplier_cases
      [of "empty_params\<lparr>mov_multiplier := Some (1 / 2), mov_method := Some ''linear''\<rparr>" 3]
    mov_multiplier_cases [of "empty_params\<lparr>mov_multiplier := Some (1 / 2)\<rparr>" 0]
    mov_multiplier_cases [of "empty_params\<lparr>mov_multiplier := Some (1 / 2)\<rparr>" "- 4"]
  by (simp add: empty_params_def get_or_def)

text \<open>
  C7. The Outcome Scorer returns 1 for the win codes \<open>'RW'\<close>, \<open>'W'\<close> and 1 (\<open>True\<close>
  equals 1), the configured overtime-win value (0.75 when not configured) for \<open>'OTW'\<close>,
  one minus that value for \<open>'OTL'\<close>, and 0 for every other value; hence the scores of
  \<open>'OTW'\<close> and \<open>'OTL'\<close> add up to 1 under every configuration.
\<close>

theorem get_actual_score_cases:
  "(outcome \<in> {Str ''RW'', Str ''W'', Num 1, Bool True} \<longrightarrow> get_actual_score p outcome = 1)
   \<and> (outcome = Str ''OTW'' \<longrightarrow> get_actual_score p outcome = get_or (ot_win_multiplier p) 0.75)
   \<and> (outcome = Str ''OTL'' \<longrightarrow>
        get_actual_score p outcome = 1 - get_or (ot_win_multiplier p) 0.75)
   \<and> (outcome \<notin> {Str ''RW'', Str ''W'', Num 1, Bool True, Str ''OTW'', Str ''OTL''} \<longrightarrow>
        get_actual_score p outcome = 0)
   \<and> (ot_win_multiplier p = None \<longrightarrow> get_actual_score p (Str ''OTW'') = 0.75)
   \<and> get_actual_score p (Str ''OTW'') + get_actual_score p (Str ''OTL'') = 1"
  by (cases outcome) (auto simp: get_actual_score_def get_or_def)

theorem get_actual_score_cases_witness:
  "Num 1 \<in> {Str ''RW'', Str ''W'', Num 1, Bool True}
     \<and> get_actual_score empty_params (Num 1) = 1
   \<and> ot_win_multiplier empty_params = None
     \<and> get_actual_score empty_params (Str ''OTW'') = 3 / 4
   \<and> get_actual_score empty_params (Str ''OTL'') = 1 / 4
   \<and> Str ''L'' \<notin> {Str ''RW'', Str ''W'', Num 1, Bool True, Str ''OTW'', Str ''OTL''}
     \<and> get_actual_score empty_params (Str ''L'') = 0"
  using get_actual_score_cases [of "Num 1" empty_params]
    get_actual_score_cases [of "Str ''OTW''" empty_params]
    get_actual_score_cases [of "Str ''OTL''" empty_params]
    get_actual_score_cases [of "Str ''L''" empty_params]
  by (simp add: empty_params_def get_or_def)

section \<open>Properties of the Rating Update Engine\<close>

lemma update_ratings_missing:
  assumes "home_team g = None \<or> away_team g = None \<or> home_goals g = None \<or> away_goals g = None"
  shows "\<exists>k \<in> {''home_team'', ''away_team'', ''home_goals'', ''away_goals''}.
           update_ratings p m g = Inl (KeyError k)"
  using assms
  by (auto simp: update_ratings_def update_home_actual_def update_goal_diff_def getitem_def Let_def
           split: option.splits sum.splits cell.splits)

lemma fit_loop_append:
  "fit_loop p m gs1 = Inr m1 \<Longrightarrow> fit_loop p m (gs1 @ gs2) = fit_loop p m1 gs2"
  by (induction gs1 arbitrary: m) (auto split: sum.splits)

text \<open>
  C4, as amended. A match record in which the key of a mandatory field (a team identifier
  or a goal count) is absent is rejected by \<open>update_ratings\<close> itself: on any model it
  raises \<open>KeyError\<close> for one of the four mandatory keys, and when the record comes up in
  the training loop after the matches \<open>gs1\<close>, the loop ends with that error and the model
  is exactly the one that \<open>gs1\<close> left, with no rating written and no history entry
  appended for the record (nor for any match after it).
\<close>

theorem missing_mandatory_field_rejected:
  assumes bad: "home_team g = None \<or> away_team g = None \<or> home_goals g = None \<or> away_goals g = None"
      and pre: "fit_loop p m gs1 = Inr m1"
  shows "\<exists>k \<in> {''home_team'', ''away_team'', ''home_goals'', ''away_goals''}.
           update_ratings p m1 g = Inl (KeyError k)
           \<and> fit_loop p m (gs1 @ g # gs2) = Inl (KeyError k, m1)"
proof -
  from update_ratings_missing [OF bad, of p m1]
  obtain k where k: "k \<in> {''home_team'', ''away_team'', ''home_goals'', ''away_goals''}"
    and u: "update_ratings p m1 g = Inl (KeyError k)" by blast
  have "fit_loop p m (gs1 @ g # gs2) = fit_loop p m1 (g # gs2)"
    using pre by (rule fit_loop_append)
  also have "\<dots> = Inl (KeyError k, m1)" using u by simp
  finally show ?thesis using k u by blast
qed

theorem missing_mandatory_field_rejected_witness:
  "home_goals ((plain_game ''A'' ''B'' 3 0)\<lparr>home_goals := None\<rparr>) = None
   \<and> fit_loop empty_params (store []) [plain_game ''A'' ''B'' 3 0]
       = Inr \<lparr>ratings = [(''A'', 1516), (''B'', 1484)],
            rating_history = [\<lparr>hist_home_team = ''A'', hist_away_team = ''B'',
                                hist_home_rating = 1516, hist_away_rating = 1484\<rparr>]\<rparr>
   \<and> (\<exists>k. fit_loop empty_params (store [])
              ([plain_game ''A'' ''B'' 3 0]
                 @ (plain_game ''A'' ''B'' 3 0)\<lparr>home_goals := None\<rparr> # [plain_game ''B'' ''A'' 1 0])
       = Inl (KeyError k, \<lparr>ratings = [(''A'', 1516), (''B'', 1484)],
            rating_history = [\<lparr>hist_home_team = ''A'', hist_away_team = ''B'',
                                hist_home_rating = 1516, hist_away_rating = 1484\<rparr>]\<rparr>))"
proof -
  let ?g = "(plain_game ''A'' ''B'' 3 0)\<lparr>home_goals := None\<rparr>"
  let ?m1 = "\<lparr>ratings = [(''A'', 1516), (''B'', 1484)],
            rating_history = [\<lparr>hist_home_team = ''A'', hist_away_team = ''B'',
                                hist_home_rating = 1516, hist_away_rating = 1484\<rparr>]\<rparr>"
  have bad: "home_team ?g = None \<or> away_team ?g = None \<or> home_goals ?g = None \<or> away_goals ?g = None"
    by simp
  have pre: "fit_loop empty_params (store []) [plain_game ''A'' ''B'' 3 0] = Inr ?m1"
    by (simp add: eval_defs)
  from missing_mandatory_field_rejected [OF bad pre, of "[plain_game ''B'' ''A'' 1 0]"]
  show ?thesis using pre by auto
qed

text \<open>
  The claim as stated, for every record lacking a goal count, fails where the count is
  missing as a value: a record whose \<open>home_goals\<close> is NaN raises nothing. On a fresh
  model with the empty configuration the comparison of line 134 is false, so the match is
  scored as a home loss; the NaN differential is dropped at line 63; and both ratings and
  the history entry are written, by \<open>update_ratings\<close> and through the training loop
  alike.
\<close>

theorem missing_goal_value_scored_as_loss:
  "update_ratings empty_params (store []) ((plain_game ''A'' ''B'' 0 2)\<lparr>home_goals := Some NaN\<rparr>)
     = Inr \<lparr>ratings = [(''A'', 1484), (''B'', 1516)],
            rating_history = [\<lparr>hist_home_team = ''A'', hist_away_team = ''B'',
                                hist_home_rating = 1484, hist_away_rating = 1516\<rparr>]\<rparr>
   \<and> fit_loop empty_params (store []) [(plain_game ''A'' ''B'' 0 2)\<lparr>home_goals := Some NaN\<rparr>]
     = Inr \<lparr>ratings = [(''A'', 1484), (''B'', 1516)],
            rating_history = [\<lparr>hist_home_team = ''A'', hist_away_team = ''B'',
                                hist_home_rating = 1484, hist_away_rating = 1516\<rparr>]\<rparr>"
  by (simp add: eval_defs)

text \<open>
  With a non-zero MOV weight the same record makes both ratings NaN, again without an
  exception.
\<close>

lemma missing_goal_value_poisons_ratings:
  "update_ratings (empty_params\<lparr>mov_multiplier := Some (1 / 2)\<rparr>) (store [])
     ((plain_game ''A'' ''B'' 0 2)\<lparr>home_goals := Some NaN\<rparr>) = Inl (NanRatings ''A'' ''B'')"
  by (simp add: eval_defs)

subsection \<open>The sum of the ratings\<close>

lemma map_of_ratings_set: "map_of (ratings_set t v rs) = (map_of rs)(t \<mapsto> v)"
  by (induction rs) (auto simp: fun_eq_iff)

lemma sum_ratings_set:
  "map_of rs t = Some r \<Longrightarrow>
     sum_list (map snd (ratings_set t v rs)) = sum_list (map snd rs) - r + v"
  by (induction rs) (auto split: if_splits)

lemma update_ratings_sum:
  assumes ht: "home_team g = Some ht" and awt: "away_team g = Some awt" and ne: "ht \<noteq> awt"
      and kh: "map_of (ratings m) ht = Some rh" and ka: "map_of (ratings m) awt = Some ra"
      and u: "update_ratings p m g = Inr m'"
  shows "rating_sum m' = rating_sum m \<and> dom (map_of (ratings m')) = dom (map_of (ratings m))"
proof -
  from u ht awt obtain x y where
    rs: "ratings m' = ratings_set awt y (ratings_set ht x (ratings m))"
    and xy: "x + y = rh + ra"
    using kh ka
    by (auto simp: update_ratings_def getitem_def Let_def ratings_get_def algebra_simps
             split: sum.splits cell.splits)
  have ka': "map_of (ratings_set ht x (ratings m)) awt = Some ra"
    using ka ne by (simp add: map_of_ratings_set)
  have "rating_sum m' = sum_list (map snd (ratings m)) - rh + x - ra + y"
    unfolding rating_sum_def rs
    by (simp add: sum_ratings_set [OF ka'] sum_ratings_set [OF kh])
  then have s: "rating_sum m' = rating_sum m" using xy by (simp add: rating_sum_def)
  have "dom (map_of (ratings m')) = dom (map_of (ratings m))"
    using kh ka by (auto simp: rs map_of_ratings_set)
  with s show ?thesis by simp
qed

lemma fit_loop_sum:
  assumes "\<forall>g \<in> set gs. \<exists>ht awt. home_team g = Some ht \<and> away_team g = Some awt \<and> ht \<noteq> awt
              \<and> ht \<in> dom (map_of (ratings m)) \<and> awt \<in> dom (map_of (ratings m))"
      and "fit_loop p m gs = Inr m'"
  shows "rating_sum m' = rating_sum m \<and> dom (map_of (ratings m')) = dom (map_of (ratings m))"
  using assms
proof (induction gs arbitrary: m)
  case Nil
  then show ?case by simp
next
  case (Cons g gs)
  from Cons.prems(1) obtain ht awt rh ra where g:
    "home_team g = Some ht" "away_team g = Some awt" "ht \<noteq> awt"
    "map_of (ratings m) ht = Some rh" "map_of (ratings m) awt = Some ra"
    by auto
  from Cons.prems(2) obtain m1 where m1: "update_ratings p m g = Inr m1"
    and rest: "fit_loop p m1 gs = Inr m'"
    by (auto split: sum.splits)
  from update_ratings_sum [OF g m1]
  have s1: "rating_sum m1 = rating_sum m"
    and d1: "dom (map_of (ratings m1)) = dom (map_of (ratings m))" by simp_all
  have "\<forall>g \<in> set gs. \<exists>ht awt. home_team g = Some ht \<and> away_team g = Some awt \<and> ht \<noteq> awt
              \<and> ht \<in> dom (map_of (ratings m1)) \<and> awt \<in> dom (map_of (ratings m1))"
    using Cons.prems(1) unfolding d1 by simp
  from Cons.IH [OF this rest] show ?case using s1 d1 by simp
qed

lemma update_ratings_delta:
  assumes ht: "home_team g = Some ht" and awt: "away_team g = Some awt" and ne: "ht \<noteq> awt"
      and u: "update_ratings p m g = Inr m'"
  shows "\<exists>a c mm. update_home_actual p g = Inr a \<and> update_goal_diff g = Inr c
      \<and> calculate_mov_multiplier_cell p c = Val mm
      \<and> map_of (ratings m') ht = Some (ratings_get (ratings m) ht 1500
            + get_or (k_factor p) 32 * mm
                * (a - update_home_expected p (ratings m) g ht awt))
      \<and> map_of (ratings m') awt = Some (ratings_get (ratings m) awt 1500
            - get_or (k_factor p) 32 * mm
                * (a - update_home_expected p (ratings m) g ht awt))"
proof -
  from u ht awt obtain a c mm where a: "update_home_actual p g = Inr a"
    and c: "update_goal_diff g = Inr c"
    and mm: "calculate_mov_multiplier_cell p c = Val mm"
    by (auto simp: update_ratings_def getitem_def Let_def split: sum.splits cell.splits)
  show ?thesis
    using u ht awt ne a c mm
    by (auto simp: update_ratings_def getitem_def Let_def map_of_ratings_set algebra_simps)
qed

text \<open>
  C3, as amended. Let the model \<open>m1\<close> be reached from \<open>m\<close> by a sequence of matches whose
  two teams are distinct and already in the Rating Store, and let \<open>g\<close> be one more match
  between two distinct teams of the store. Then the sum of all ratings in \<open>m1\<close> is that of
  \<open>m\<close>; the update for \<open>g\<close> adds \<open>K * (home_actual - home_expected)\<close> to the home
  rating and subtracts the same quantity from the away rating, with
  \<open>K = k_factor * mm\<close> and \<open>mm\<close> the margin-of-victory multiplier of the match (which is
  \<open>calculate_mov_multiplier p d\<close> at a numeric goal differential \<open>d\<close>); and the sum of
  all ratings is unchanged by it.
\<close>

theorem rating_sum_invariant:
  assumes known: "\<forall>g \<in> set gs. \<exists>ht awt. home_team g = Some ht \<and> away_team g = Some awt
              \<and> ht \<noteq> awt \<and> ht \<in> dom (map_of (ratings m)) \<and> awt \<in> dom (map_of (ratings m))"
      and run: "fit_loop p m gs = Inr m1"
      and ht: "home_team g = Some ht" and awt: "away_team g = Some awt" and ne: "ht \<noteq> awt"
      and kh: "map_of (ratings m1) ht = Some rh" and ka: "map_of (ratings m1) awt = Some ra"
      and u: "update_ratings p m1 g = Inr m2"
  shows "rating_sum m1 = rating_sum m
     \<and> (\<exists>a c mm. update_home_actual p g = Inr a \<and> update_goal_diff g = Inr c
          \<and> calculate_mov_multiplier_cell p c = Val mm
          \<and> (\<forall>d. c = Val d \<longrightarrow> mm = calculate_mov_multiplier p d)
          \<and> map_of (ratings m2) ht = Some (rh
                + get_or (k_factor p) 32 * mm
                    * (a - update_home_expected p (ratings m1) g ht awt))
          \<and> map_of (ratings m2) awt = Some (ra
                - get_or (k_factor p) 32 * mm
                    * (a - update_home_expected p (ratings m1) g ht awt)))
     \<and> rating_sum m2 = rating_sum m1"
proof -
  have s1: "rating_sum m1 = rating_sum m"
    using fit_loop_sum [OF known run] by simp
  have s2: "rating_sum m2 = rating_sum m1"
    using update_ratings_sum [OF ht awt ne kh ka u] by simp
  have gh: "ratings_get (ratings m1) ht 1500 = rh" using kh by (simp add: ratings_get_def)
  have ga: "ratings_get (ratings m1) awt 1500 = ra" using ka by (simp add: ratings_get_def)
  from update_ratings_delta [OF ht awt ne u] obtain a c mm where
    d: "update_home_actual p g = Inr a" "update_goal_diff g = Inr c"
      "calculate_mov_multiplier_cell p c = Val mm"
      "map_of (ratings m2) ht = Some (rh + get_or (k_factor p) 32 * mm
          * (a - update_home_expected p (ratings m1) g ht awt))"
      "map_of (ratings m2) awt = Some (ra - get_or (k_factor p) 32 * mm
          * (a - update_home_expected p (ratings m1) g ht awt))"
    unfolding gh ga by blast
  have "\<forall>d. c = Val d \<longrightarrow> mm = calculate_mov_multiplier p d"
    using d(3) by (auto simp: calculate_mov_multiplier_cell_def)
  with d s1 s2 show ?thesis by blast
qed

theorem rating_sum_invariant_witness:
  "fit_loop empty_params (store [(''A'', 1500), (''B'', 1500), (''C'', 1500), (''D'', 1500)])
        [plain_game ''A'' ''B'' 3 0]
       = Inr \<lparr>ratings = [(''A'', 1516), (''B'', 1484), (''C'', 1500), (''D'', 1500)],
            rating_history = [\<lparr>hist_home_team = ''A'', hist_away_team = ''B'',
                                hist_home_rating = 1516, hist_away_rating = 1484\<rparr>]\<rparr>
   \<and> update_ratings empty_params
        \<lparr>ratings = [(''A'', 1516), (''B'', 1484), (''C'', 1500), (''D'', 1500)],
            rating_history = [\<lparr>hist_home_team = ''A'', hist_away_team = ''B'',
                                hist_home_rating = 1516, hist_away_rating = 1484\<rparr>]\<rparr>
        (plain_game ''C'' ''D'' 2 1)
       = Inr \<lparr>ratings = [(''A'', 1516), (''B'', 1484), (''C'', 1516), (''D'', 1484)],
            rating_history = [\<lparr>hist_home_team = ''A'', hist_away_team = ''B'',
                                hist_home_rating = 1516, hist_away_rating = 1484\<rparr>,
                              \<lparr>hist_home_team = ''C'', hist_away_team = ''D'',
                                hist_home_rating = 1516, hist_away_rating = 1484\<rparr>]\<rparr>
   \<and> rating_sum \<lparr>ratings = [(''A'', 1516), (''B'', 1484), (''C'', 1516), (''D'', 1484)],
            rating_history = [\<lparr>hist_home_team = ''A'', hist_away_team = ''B'',
                                hist_home_rating = 1516, hist_away_rating = 1484\<rparr>,
                              \<lparr>hist_home_team = ''C'', hist_away_team = ''D'',
                                hist_home_rating = 1516, hist_away_rating = 1484\<rparr>]\<rparr>
       = rating_sum (store [(''A'', 1500), (''B'', 1500), (''C'', 1500), (''D'', 1500)])"
proof -
  let ?m = "store [(''A'', 1500), (''B'', 1500), (''C'', 1500), (''D'', 1500)]"
  let ?h1 = "\<lparr>hist_home_team = ''A'', hist_away_team = ''B'',
                                hist_home_rating = 1516, hist_away_rating = 1484\<rparr>"
  let ?h2 = "\<lparr>hist_home_team = ''C'', hist_away_team = ''D'',
                                hist_home_rating = 1516, hist_away_rating = 1484\<rparr>"
  let ?m1 = "\<lparr>ratings = [(''A'', 1516), (''B'', 1484), (''C'', 1500), (''D'', 1500)],
            rating_history = [?h1]\<rparr>"
  let ?m2 = "\<lparr>ratings = [(''A'', 1516), (''B'', 1484), (''C'', 1516), (''D'', 1484)],
            rating_history = [?h1, ?h2]\<rparr>"
  let ?g = "plain_game ''C'' ''D'' 2 1"
  have known: "\<forall>g \<in> set [plain_game ''A'' ''B'' 3 0]. \<exists>ht awt.
        home_team g = Some ht \<and> away_team g = Some awt \<and> ht \<noteq> awt
        \<and> ht \<in> dom (map_of (ratings ?m)) \<and> awt \<in> dom (map_of (ratings ?m))"
    by (simp add: plain_game_def store_def)
  have run: "fit_loop empty_params ?m [plain_game ''A'' ''B'' 3 0] = Inr ?m1"
    by (simp add: eval_defs)
  have ht: "home_team ?g = Some ''C''" and awt: "away_team ?g = Some ''D''"
    by (simp_all add: plain_game_def)
  have ne: "''C'' \<noteq> ''D''" by simp
  have kh: "map_of (ratings ?m1) ''C'' = Some 1500"
    and ka: "map_of (ratings ?m1) ''D'' = Some 1500"
    by simp_all
  have u: "update_ratings empty_params ?m1 ?g = Inr ?m2"
    by (simp add: eval_defs)
  from rating_sum_invariant [OF known run ht awt ne kh ka u]
  have "rating_sum ?m2 = rating_sum ?m" by simp
  then show ?thesis using run u by simp
qed

text \<open>
  The claim as stated, for every match, fails on a fresh model: the update for a match
  between two teams that the store does not hold yet inserts both at 1500 plus and minus
  the change, and the sum of the store goes from 0 to 3000.
\<close>

theorem rating_sum_changes_for_unseen_teams:
  "update_ratings empty_params (store []) (plain_game ''A'' ''B'' 3 0)
     = Inr \<lparr>ratings = [(''A'', 1516), (''B'', 1484)],
            rating_history = [\<lparr>hist_home_team = ''A'', hist_away_team = ''B'',
                                hist_home_rating = 1516, hist_away_rating = 1484\<rparr>]\<rparr>
   \<and> rating_sum (store []) = 0
   \<and> rating_sum \<lparr>ratings = [(''A'', 1516), (''B'', 1484)],
            rating_history = [\<lparr>hist_home_team = ''A'', hist_away_team = ''B'',
                                hist_home_rating = 1516, hist_away_rating = 1484\<rparr>]\<rparr> = 3000"
  by (simp add: eval_defs rating_sum_def)

text \<open>
  A match of a team against itself breaks the balance too: the away assignment overwrites
  the home one, and the store loses 16 points.
\<close>

lemma self_match_overwrites:
  "update_ratings empty_params (store [(''A'', 1500)]) (plain_game ''A'' ''A'' 3 0)
     = Inr \<lparr>ratings = [(''A'', 1484)],
            rating_history = [\<lparr>hist_home_team = ''A'', hist_away_team = ''A'',
                                hist_home_rating = 1484, hist_away_rating = 1484\<rparr>]\<rparr>"
  by (simp add: eval_defs)

section \<open>Properties of the Predictor\<close>

text \<open>
  C9. For a match record that names both teams, \<open>predict_winner\<close> returns a side and a
  probability of at least 1/2: the home team with \<open>home_win_prob\<close> when that exceeds 1/2,
  and otherwise the away team with \<open>1 - home_win_prob\<close>.
\<close>

theorem predict_winner_prob:
  assumes "home_team g = Some ht" and "away_team g = Some awt"
  shows "\<exists>t pr. predict_winner p m g = Inr (t, pr) \<and> 1 / 2 \<le> pr
     \<and> (predict_home_win_prob p (ratings m) g ht awt > 1 / 2 \<longrightarrow>
          t = ht \<and> pr = predict_home_win_prob p (ratings m) g ht awt)
     \<and> (\<not> predict_home_win_prob p (ratings m) g ht awt > 1 / 2 \<longrightarrow>
          t = awt \<and> pr = 1 - predict_home_win_prob p (ratings m) g ht awt)"
  using assms by (simp add: predict_winner_def getitem_def Let_def)

theorem predict_winner_prob_witness:
  "home_team (plain_game ''A'' ''B'' 3 0) = Some ''A''
   \<and> away_team (plain_game ''A'' ''B'' 3 0) = Some ''B''
   \<and> (\<exists>t pr. predict_winner empty_params (store []) (plain_game ''A'' ''B'' 3 0) = Inr (t, pr)
          \<and> 1 / 2 \<le> pr)"
proof -
  have h: "home_team (plain_game ''A'' ''B'' 3 0) = Some ''A''"
    and a: "away_team (plain_game ''A'' ''B'' 3 0) = Some ''B''"
    by (simp_all add: plain_game_def)
  from predict_winner_prob [OF h a, of empty_params "store []"]
  show ?thesis using h a by blast
qed

text \<open>
  C1, at \<open>initial_rating = 1200\<close>. \<open>initialize_ratings\<close> starts a team at the configured
  1200, but a team that the store does not hold is read as 1500 by both \<open>update_ratings\<close>
  and \<open>predict_winner\<close>: the update of a fresh model for A beating B 3-0 leaves 1516 and
  1484 (not 1216 and 1184), and against a stored A at 1200 the unseen B is predicted to
  win as a 1500 team would (two teams at 1200 would give exactly 1/2).
\<close>

theorem unseen_team_default_ignores_initial_rating:
  "ratings (initialize_ratings (empty_params\<lparr>initial_rating := Some 1200\<rparr>) init_model
       [''A''] None) = [(''A'', 1200)]
   \<and> update_ratings (empty_params\<lparr>initial_rating := Some 1200\<rparr>) init_model
       (plain_game ''A'' ''B'' 3 0)
       = Inr \<lparr>ratings = [(''A'', 1516), (''B'', 1484)],
            rating_history = [\<lparr>hist_home_team = ''A'', hist_away_team = ''B'',
                                hist_home_rating = 1516, hist_away_rating = 1484\<rparr>]\<rparr>
   \<and> predict_winner (empty_params\<lparr>initial_rating := Some 1200\<rparr>) (store [(''A'', 1200)])
       (plain_game ''A'' ''B'' 3 0) = Inr (''B'', 1 - 1 / (1 + 10 powr (3 / 4)))"
proof -
  have "1 < 10 powr (3 / 4 :: real)" by simp
  then have "2 < 1 + 10 powr (3 / 4 :: real)" by simp
  then have "1 / (1 + 10 powr (3 / 4 :: real)) < 1 / 2"
    by (simp add: divide_simps)
  then have "\<not> 1 / 2 < 1 / (1 + 10 powr (3 / 4 :: real))" by simp
  then show ?thesis
    by (simp add: eval_defs initialize_ratings_def)
qed

text \<open>
  The predictor and the Update Engine agree on a record where the fallback fields
  \<open>travel_distance\<close> and \<open>injuries\<close> cannot come into play.
\<close>

lemma predictor_agrees_without_fallbacks:
  assumes "away_travel_dist g \<noteq> None \<or> travel_distance g = None"
      and "home_injuries g \<noteq> None \<or> injuries g = None"
      and "away_injuries g \<noteq> None \<or> injuries g = None"
  shows "predict_home_win_prob p rs g ht awt = update_home_expected p rs g ht awt"
proof -
  have t: "get_or (away_travel_dist g) (get_or (travel_distance g) 0)
             = get_or (away_travel_dist g) 0"
    using assms(1) by (auto simp: get_or_def split: option.splits)
  have h: "get_or (home_injuries g) (get_or (injuries g) 0) = get_or (home_injuries g) 0"
    using assms(2) by (auto simp: get_or_def split: option.splits)
  have a: "get_or (away_injuries g) (get_or (injuries g) 0) = get_or (away_injuries g) 0"
    using assms(3) by (auto simp: get_or_def split: option.splits)
  show ?thesis
    unfolding predict_home_win_prob_def update_home_expected_def Let_def t h a by (rule refl)
qed

text \<open>
  C2, at a record whose away travel is given as \<open>travel_distance = 1000\<close> only (fresh
  model, empty configuration). The Update Engine reads the fallback field and computes
  \<open>home_expected = 1 / (1 + 10 powr (- 3/80))\<close>; the predictor that runs reads
  \<open>away_travel_dist\<close> alone, defaults it to 0 and computes 1/2; the two differ.
\<close>

theorem predictor_ignores_travel_distance_fallback:
  "update_home_expected empty_params []
       ((plain_game ''A'' ''B'' 3 0)\<lparr>travel_distance := Some 1000\<rparr>) ''A'' ''B''
      = 1 / (1 + 10 powr (- (3 / 80)))
   \<and> predict_home_win_prob empty_params []
       ((plain_game ''A'' ''B'' 3 0)\<lparr>travel_distance := Some 1000\<rparr>) ''A'' ''B''
      = 1 / 2
   \<and> predict_goals empty_params (store [])
       ((plain_game ''A'' ''B'' 3 0)\<lparr>travel_distance := Some 1000\<rparr>) = Inr (3, 3)
   \<and> 1 / (1 + 10 powr (- (3 / 80))) \<noteq> (1 / 2 :: real)"
proof -
  have "10 powr (- (3 / 80)) \<noteq> (1::real)" by simp
  then have "1 / (1 + 10 powr (- (3 / 80))) \<noteq> (1 / 2 :: real)" by (simp add: field_simps)
  then show ?thesis by (simp add: eval_defs)
qed

section \<open>Properties of the Evaluator\<close>

lemma evaluate_loop_constant:
  assumes "\<forall>g \<in> set gs. home_team g \<noteq> None \<and> away_team g \<noteq> None
             \<and> home_goals g = Some (Val c)"
  shows "\<exists>ps. evaluate_loop p m gs = Inr (ps, replicate (length gs) (Val c))
           \<and> length ps = length gs"
  using assms
proof (induction gs)
  case Nil
  then show ?case by simp
next
  case (Cons g gs)
  then obtain ps where ps: "evaluate_loop p m gs = Inr (ps, replicate (length gs) (Val c))"
    "length ps = length gs" by auto
  from Cons.prems obtain ht awt where "home_team g = Some ht" "away_team g = Some awt"
    "home_goals g = Some (Val c)" by auto
  then show ?case using ps
    by (simp add: predict_goals_def getitem_def Let_def)
qed

lemma remdups_replicate_le: "length (remdups (replicate n (c::real))) \<le> 1"
  by (induction n) auto

lemma finite_cells_replicate: "finite_cells (replicate n (Val c)) = Some (replicate n c)"
  by (induction n) auto

text \<open>
  C8. On a non-empty sequence of match records that name both teams and all carry the
  same observed home-goal value \<open>c\<close> (a number), \<open>evaluate\<close> raises nothing and returns metrics
  with \<open>r2 = 0\<close>, the RMSE and the MAE being those of the predictions \<open>ps\<close> of the loop
  against the observations.
\<close>

theorem evaluate_zero_variance:
  assumes ne: "gs \<noteq> []"
      and wf: "\<forall>g \<in> set gs. home_team g \<noteq> None \<and> away_team g \<noteq> None
                 \<and> home_goals g = Some (Val c)"
  shows "\<exists>ps. evaluate_loop p m gs = Inr (ps, replicate (length gs) (Val c))
           \<and> length ps = length gs
           \<and> evaluate p m gs =
               Inr \<lparr>rmse = root_mean_squared_error (replicate (length gs) c) ps,
                    mae = mean_absolute_error (replicate (length gs) c) ps,
                    r2 = 0\<rparr>"
proof -
  from evaluate_loop_constant [OF wf, of p m]
  obtain ps where ps: "evaluate_loop p m gs = Inr (ps, replicate (length gs) (Val c))"
    "length ps = length gs" by blast
  have "\<not> 1 < length (remdups (replicate (length gs) c))"
    using remdups_replicate_le [of "length gs" c] by simp
  then have "evaluate p m gs =
               Inr \<lparr>rmse = root_mean_squared_error (replicate (length gs) c) ps,
                    mae = mean_absolute_error (replicate (length gs) c) ps,
                    r2 = 0\<rparr>"
    using ps ne by (simp add: evaluate_def finite_cells_replicate)
  then show ?thesis using ps by blast
qed

theorem evaluate_zero_variance_witness:
  "[plain_game ''A'' ''B'' 3 0, plain_game ''B'' ''A'' 3 1] \<noteq> []
   \<and> home_goals (plain_game ''A'' ''B'' 3 0) = Some (Val 3)
   \<and> home_goals (plain_game ''B'' ''A'' 3 1) = Some (Val 3)
   \<and> (\<exists>mt. evaluate empty_params (store [(''A'', 1516), (''B'', 1484)])
               [plain_game ''A'' ''B'' 3 0, plain_game ''B'' ''A'' 3 1] = Inr mt \<and> r2 mt = 0)"
proof -
  have ne: "[plain_game ''A'' ''B'' 3 0, plain_game ''B'' ''A'' 3 1] \<noteq> []" by simp
  have wf: "\<forall>g \<in> set [plain_game ''A'' ''B'' 3 0, plain_game ''B'' ''A'' 3 1].
         home_team g \<noteq> None \<and> away_team g \<noteq> None \<and> home_goals g = Some (Val 3)"
    by (simp add: plain_game_def)
  from evaluate_zero_variance [OF ne wf, of empty_params "store [(''A'', 1516), (''B'', 1484)]"]
  obtain mt where "evaluate empty_params (store [(''A'', 1516), (''B'', 1484)])
               [plain_game ''A'' ''B'' 3 0, plain_game ''B'' ''A'' 3 1] = Inr mt" "r2 mt = 0"
    by auto
  then show ?thesis using ne by (simp add: plain_game_def)
qed

section \<open>Properties of the rankings\<close>

lemma sort_key_neg_desc:
  "sorted_wrt (\<lambda>a b. snd a \<ge> snd b) (sort_key (\<lambda>x. - snd x) (xs :: (string \<times> real) list))"
proof -
  have "sorted (map (\<lambda>x. - snd x) (sort_key (\<lambda>x. - snd x) xs))"
    by (rule sorted_sort_key)
  then show ?thesis
    by (simp add: sorted_map)
qed

text \<open>
  C10. Without \<open>top_n\<close>, \<open>get_rankings\<close> returns exactly the (team, rating) pairs of the
  Rating Store, in descending order of rating; with a positive \<open>top_n = n\<close> it returns
  the first \<open>n\<close> entries of that list; and with \<open>top_n = 0\<close> it returns the full list,
  not the empty one.
\<close>

theorem get_rankings_spec:
  "mset (get_rankings m None) = mset (ratings m)
   \<and> sorted_wrt (\<lambda>a b. snd a \<ge> snd b) (get_rankings m None)
   \<and> (0 < n \<longrightarrow> get_rankings m (Some n) = take (nat n) (get_rankings m None))
   \<and> get_rankings m (Some 0) = get_rankings m None"
  using sort_key_neg_desc [of "ratings m"]
  by (simp add: get_rankings_def slice_to_def)

theorem get_rankings_spec_witness:
  "(0::int) < 2
   \<and> get_rankings (store [(''A'', 1), (''B'', 3), (''C'', 3), (''D'', 2)]) (Some 2)
       = take (nat 2) (get_rankings (store [(''A'', 1), (''B'', 3), (''C'', 3), (''D'', 2)]) None)
   \<and> get_rankings (store [(''A'', 1), (''B'', 3), (''C'', 3), (''D'', 2)]) (Some 0)
       = get_rankings (store [(''A'', 1), (''B'', 3), (''C'', 3), (''D'', 2)]) None"
  using get_rankings_spec [of "store [(''A'', 1), (''B'', 3), (''C'', 3), (''D'', 2)]" 2]
  by simp

text \<open>The ranking of a small store, with a tie kept in the store's order.\<close>

lemma get_rankings_example:
  "get_rankings (store [(''A'', 1), (''B'', 3), (''C'', 3), (''D'', 2)]) None
     = [(''B'', 3), (''C'', 3), (''D'', 2), (''A'', 1)]
   \<and> get_rankings (store [(''A'', 1), (''B'', 3), (''C'', 3), (''D'', 2)]) (Some 2)
     = [(''B'', 3), (''C'', 3)]
   \<and> get_rankings (store [(''A'', 1), (''B'', 3), (''C'', 3), (''D'', 2)]) (Some 0)
     = [(''B'', 3), (''C'', 3), (''D'', 2), (''A'', 1)]"
  by (simp add: get_rankings_def slice_to_def store_def)

end
